theory Spec2Isabelle
  imports Main "HOL-Library.Multiset"
begin

section \<open>Data model\<close>

text \<open>
  The rows that \<^verbatim>\<open>server.js\<close> reads from the data-access client and the JSON values it
  answers with. Identifiers and names are strings (the \<^verbatim>\<open>userId\<close> they are compared with
  comes from the query string), \<^verbatim>\<open>created_at\<close> is a point in time (a natural number). A
  JavaScript field that may be \<^verbatim>\<open>null\<close> is an option.
  Field names carry a prefix, since one theory cannot hold two record fields of one name:
  \<^verbatim>\<open>u_id\<close> is the field \<^verbatim>\<open>id\<close> of a user, \<^verbatim>\<open>c_name\<close> the field \<^verbatim>\<open>name\<close> of a chat.
\<close>

record user =
  u_id :: string
  u_username :: string

text \<open>One element of \<^verbatim>\<open>participants:user_chats(user:users(id, username))\<close>: an object with
  the single field \<^verbatim>\<open>user\<close>, which the code reads as \<^verbatim>\<open>p.user?.id\<close> (it may be null).\<close>

record participant =
  p_user :: "user option"

record chat =
  c_id :: string
  c_name :: "string option"
  c_participants :: "participant list"

text \<open>A row of \<^verbatim>\<open>from('user_chats').select('chat_id')\<close>.\<close>

record link =
  l_chat_id :: string

text \<open>A row of \<^verbatim>\<open>from('messages').select('body, created_at')\<close>.\<close>

record last_row =
  lm_body :: string
  lm_created_at :: nat

text \<open>The \<^verbatim>\<open>lastMessage\<close> object of the answer: \<^verbatim>\<open>{body, timestamp}\<close>.\<close>

record last_message =
  body :: string
  timestamp :: nat

record chat_summary =
  s_id :: string
  s_name :: string
  s_participants :: "participant list"
  s_lastMessage :: "last_message option"

text \<open>The embedded \<^verbatim>\<open>sender:users(username)\<close> of a message.\<close>

record sender =
  sender_username :: string

record message =
  m_id :: string
  m_body :: string
  m_created_at :: nat
  m_sender_id :: string
  m_sender :: "sender option"

subsection \<open>Results of the data-access client\<close>

text \<open>The client answers every query with \<^verbatim>\<open>{ data, error }\<close>; either may be null.\<close>

record store_error =
  err_code :: string
  err_message :: string

record 'a qresult =
  data :: "'a option"
  error :: "store_error option"

text \<open>The queries the handlers issue, recorded in the order they are issued.\<close>

datatype query =
    SelectUserByUsername string
  | InsertUser string
  | SelectUserChats string
  | SelectChatsIn "string list"
  | SelectLastMessage string
  | SelectChat string
  | SelectMessages string
  | SelectMessage string

text \<open>
  The client handle \<^verbatim>\<open>supabase\<close>, one field for each query chain of the source:
  \<^item> \<open>users_by_username\<close>: \<^verbatim>\<open>from('users').select('id, username').eq('username', u).single()\<close>
  \<^item> \<open>users_insert\<close>: \<^verbatim>\<open>from('users').insert([{ username }]).select('id, username').single()\<close>
  \<^item> \<open>user_chats_of\<close>: \<^verbatim>\<open>from('user_chats').select('chat_id').eq('user_id', userId)\<close>
  \<^item> \<open>chats_in\<close>: \<^verbatim>\<open>from('chats').select(id, name, participants...).in('id', chatIds)\<close>
  \<^item> \<open>messages_last\<close>: \<^verbatim>\<open>from('messages').select('body, created_at').eq('chat_id', id)
      .order('created_at', { ascending: false }).limit(1)\<close>
  \<^item> \<open>chats_by_id\<close>: \<^verbatim>\<open>from('chats').select(id, name, participants...).eq('id', chatId).single()\<close>
  \<^item> \<open>messages_of\<close>: \<^verbatim>\<open>from('messages').select(...).eq('chat_id', chatId)
      .order('created_at', { ascending: true })\<close>
  \<^item> \<open>messages_by_id\<close>: \<^verbatim>\<open>from('messages').select(...).eq('id', messageId).single()\<close>
\<close>

record client =
  users_by_username :: "string \<Rightarrow> user qresult"
  users_insert :: "string \<Rightarrow> user qresult"
  user_chats_of :: "string \<Rightarrow> link list qresult"
  chats_in :: "string list \<Rightarrow> chat list qresult"
  messages_last :: "string \<Rightarrow> last_row list qresult"
  chats_by_id :: "string \<Rightarrow> chat qresult"
  messages_of :: "string \<Rightarrow> message list qresult"
  messages_by_id :: "string \<Rightarrow> message qresult"

subsection \<open>Responses and exceptions\<close>

datatype payload =
    ErrorJson string
  | NullJson
  | UserJson user
  | ChatsJson "chat_summary list"
  | ChatJson chat
  | MessagesJson "message list"
  | MessageJson message

datatype response = Response (status: nat) (json: payload)

text \<open>
  What the \<^verbatim>\<open>try\<close> block of \<^verbatim>\<open>GET /api/chats\<close> can throw: a store error (the two
  \<^verbatim>\<open>throw\<close> statements) or the \<^verbatim>\<open>TypeError\<close> of reading a property of \<^verbatim>\<open>null\<close>;
  \<open>TypeError p\<close> is the error of reading property \<open>p\<close>, with the message Node.js gives
  it. The \<^verbatim>\<open>catch\<close> block answers with \<^verbatim>\<open>error.message\<close>.
\<close>

datatype exn = StoreError store_error | TypeError string

fun exn_message :: "exn \<Rightarrow> string" where
  "exn_message (StoreError e) = err_message e"
| "exn_message (TypeError p) =
     ''Cannot read properties of null (reading '' @ [CHR 0x27] @ p @ [CHR 0x27] @ '')''"

text \<open>The \<^verbatim>\<open>catch\<close> block: \<^verbatim>\<open>res.status(500).json({ error: error.message })\<close>.\<close>

definition caught :: "exn \<Rightarrow> response" where
  "caught e = Response 500 (ErrorJson (exn_message e))"

text \<open>\<^verbatim>\<open>!x\<close> for a string that may be missing: undefined, null and the empty string are falsy.\<close>

fun falsy :: "string option \<Rightarrow> bool" where
  "falsy None = True"
| "falsy (Some s) = (s = [])"

section \<open>The handlers\<close>

subsection \<open>POST /api/login\<close>

definition post_login :: "client \<Rightarrow> string option \<Rightarrow> response \<times> query list" where
  "post_login sb username =
     (case username of
        None \<Rightarrow> (Response 400 (ErrorJson ''Username is required''), [])
      | Some name \<Rightarrow>
          if name = [] then (Response 400 (ErrorJson ''Username is required''), [])
          else
            let r = users_by_username sb name in
            (case error r of
               Some e \<Rightarrow>
                 if err_code e = ''PGRST116'' then
                   (let r2 = users_insert sb name in
                    case error r2 of
                      Some e2 \<Rightarrow>
                        (Response 500 (ErrorJson (err_message e2)),
                         [SelectUserByUsername name, InsertUser name])
                    | None \<Rightarrow>
                        (Response 200 (case data r2 of None \<Rightarrow> NullJson | Some u \<Rightarrow> UserJson u),
                         [SelectUserByUsername name, InsertUser name]))
                 else (Response 500 (ErrorJson (err_message e)), [SelectUserByUsername name])
             | None \<Rightarrow>
                 (Response 200 (case data r of None \<Rightarrow> NullJson | Some u \<Rightarrow> UserJson u),
                  [SelectUserByUsername name])))"

subsection \<open>GET /api/chats\<close>

text \<open>\<^verbatim>\<open>chat.participants.filter(p => p.user?.id !== userId)\<close>: a participant whose
  \<^verbatim>\<open>user\<close> is null has the id \<^verbatim>\<open>undefined\<close>, which differs from every string.\<close>

definition otherParticipants :: "string \<Rightarrow> participant list \<Rightarrow> participant list" where
  "otherParticipants userId ps = filter (\<lambda>p. map_option u_id (p_user p) \<noteq> Some userId) ps"

text \<open>\<^verbatim>\<open>otherParticipants.map(p => p.user.username)\<close>: reading \<^verbatim>\<open>username\<close> of a null
  \<^verbatim>\<open>user\<close> throws.\<close>

fun usernames :: "participant list \<Rightarrow> exn + string list" where
  "usernames [] = Inr []"
| "usernames (p # ps) =
     (case p_user p of
        None \<Rightarrow> Inl (TypeError ''username'')
      | Some u \<Rightarrow> (case usernames ps of Inl e \<Rightarrow> Inl e | Inr ns \<Rightarrow> Inr (u_username u # ns)))"

text \<open>\<^verbatim>\<open>Array.prototype.join\<close> on strings.\<close>

fun join :: "string \<Rightarrow> string list \<Rightarrow> string" where
  "join sep [] = []"
| "join sep [x] = x"
| "join sep (x # y # ys) = x @ sep @ join sep (y # ys)"

text \<open>\<^verbatim>\<open>chat.name || (otherParticipants.length > 0 ? ... .join(', ') : 'New Chat')\<close>.\<close>

definition chatName :: "string \<Rightarrow> chat \<Rightarrow> exn + string" where
  "chatName userId chat =
     (if \<not> falsy (c_name chat) then Inr (case c_name chat of Some n \<Rightarrow> n | None \<Rightarrow> [])
      else if length (otherParticipants userId (c_participants chat)) > 0 then
        (case usernames (otherParticipants userId (c_participants chat)) of
           Inl e \<Rightarrow> Inl e
         | Inr ns \<Rightarrow> Inr (join '', '' ns))
      else Inr ''New Chat'')"

text \<open>\<^verbatim>\<open>(lastMessageData && lastMessageData.length > 0) ? lastMessageData[0] : null\<close>, then
  the object \<^verbatim>\<open>{ body, timestamp: created_at }\<close> or null. The \<^verbatim>\<open>error\<close> of the result
  is bound to \<^verbatim>\<open>lastMessageError\<close> and never read.\<close>

definition lastMessage :: "last_row list qresult \<Rightarrow> last_message option" where
  "lastMessage r =
     (case data r of
        None \<Rightarrow> None
      | Some [] \<Rightarrow> None
      | Some (m # ms) \<Rightarrow> Some \<lparr>body = lm_body m, timestamp = lm_created_at m\<rparr>)"

text \<open>The callback of \<^verbatim>\<open>chats.map(async (chat) => ...)\<close>: the promise is rejected (\<open>Inl\<close>)
  or fulfilled with the chat's summary.\<close>

definition formatChat :: "client \<Rightarrow> string \<Rightarrow> chat \<Rightarrow> exn + chat_summary" where
  "formatChat sb userId chat =
     (let r = messages_last sb (c_id chat) in
      case chatName userId chat of
        Inl e \<Rightarrow> Inl e
      | Inr n \<Rightarrow>
          Inr \<lparr>s_id = c_id chat, s_name = n, s_participants = c_participants chat,
               s_lastMessage = lastMessage r\<rparr>)"

text \<open>\<^verbatim>\<open>await Promise.all(...)\<close>: the values in the order of the input when every promise is
  fulfilled, a rejection otherwise.\<close>

fun promise_all :: "(exn + 'a) list \<Rightarrow> exn + 'a list" where
  "promise_all [] = Inr []"
| "promise_all (Inl e # ps) = Inl e"
| "promise_all (Inr x # ps) =
     (case promise_all ps of Inl e \<Rightarrow> Inl e | Inr xs \<Rightarrow> Inr (x # xs))"

definition get_chats :: "client \<Rightarrow> string option \<Rightarrow> response \<times> query list" where
  "get_chats sb userId =
     (case userId of
        None \<Rightarrow> (Response 400 (ErrorJson ''User ID is required''), [])
      | Some uid \<Rightarrow>
          if uid = [] then (Response 400 (ErrorJson ''User ID is required''), [])
          else
            let r1 = user_chats_of sb uid; t1 = [SelectUserChats uid] in
            (case error r1 of
               Some e \<Rightarrow> (caught (StoreError e), t1)
             | None \<Rightarrow>
                 (case data r1 of
                    None \<Rightarrow> (caught (TypeError ''map''), t1)
                  | Some userChatLinks \<Rightarrow>
                      let chatIds = map l_chat_id userChatLinks in
                      if length chatIds = 0 then (Response 200 (ChatsJson []), t1)
                      else
                        let r2 = chats_in sb chatIds; t2 = t1 @ [SelectChatsIn chatIds] in
                        (case error r2 of
                           Some e \<Rightarrow> (caught (StoreError e), t2)
                         | None \<Rightarrow>
                             (case data r2 of
                                None \<Rightarrow> (caught (TypeError ''map''), t2)
                              | Some chats \<Rightarrow>
                                  let t3 = t2 @ map (\<lambda>c. SelectLastMessage (c_id c)) chats in
                                  (case promise_all (map (formatChat sb uid) chats) of
                                     Inl e \<Rightarrow> (caught e, t3)
                                   | Inr formattedChats \<Rightarrow>
                                       (Response 200 (ChatsJson formattedChats), t3)))))))"

subsection \<open>GET /api/chats/:chatId\<close>

definition get_chat :: "client \<Rightarrow> string \<Rightarrow> response \<times> query list" where
  "get_chat sb chatId =
     (let r = chats_by_id sb chatId in
      (case error r of
         Some e \<Rightarrow> Response 500 (ErrorJson (err_message e))
       | None \<Rightarrow>
           (case data r of
              None \<Rightarrow> Response 404 (ErrorJson ''Chat not found'')
            | Some c \<Rightarrow> Response 200 (ChatJson c)),
       [SelectChat chatId]))"

subsection \<open>GET /api/chats/:chatId/messages\<close>

definition get_chat_messages :: "client \<Rightarrow> string \<Rightarrow> response \<times> query list" where
  "get_chat_messages sb chatId =
     (let r = messages_of sb chatId in
      (case error r of
         Some e \<Rightarrow> Response 500 (ErrorJson (err_message e))
       | None \<Rightarrow> Response 200 (case data r of None \<Rightarrow> NullJson | Some ms \<Rightarrow> MessagesJson ms),
       [SelectMessages chatId]))"

subsection \<open>GET /api/messages/:messageId\<close>

definition get_message :: "client \<Rightarrow> string \<Rightarrow> response \<times> query list" where
  "get_message sb messageId =
     (let r = messages_by_id sb messageId in
      (case error r of
         Some e \<Rightarrow> Response 500 (ErrorJson (err_message e))
       | None \<Rightarrow>
           (case data r of
              None \<Rightarrow> Response 404 (ErrorJson ''Message not found'')
            | Some m \<Rightarrow> Response 200 (MessageJson m)),
       [SelectMessage messageId]))"

section \<open>The data-access client over a relational store\<close>

text \<open>
  The handlers only see the client's answers. What the answers are is fixed by the query
  chains they build; this section gives those chains their meaning over the four tables, so
  that a claim about the content of an answer (the newest message, the ascending order, the
  participants of a chat) can be stated. A query either fails in the store (the fault
  \<open>faults q\<close>, any store error) or is answered from the tables:
  \<^item> \<^verbatim>\<open>eq(col, v)\<close> keeps the rows whose column equals \<open>v\<close>, \<^verbatim>\<open>in(col, vs)\<close> those whose
    column is one of \<open>vs\<close>;
  \<^item> \<^verbatim>\<open>order(col, { ascending })\<close> sorts by the column, \<^verbatim>\<open>limit(n)\<close> keeps the first
    \<open>n\<close> rows;
  \<^item> an embedded to-many relation is the list of the related rows, an embedded to-one
    relation the related row or null;
  \<^item> \<^verbatim>\<open>single()\<close> answers with the row when there is exactly one, and otherwise with
    the error whose code is \<^verbatim>\<open>PGRST116\<close>, the code \<^verbatim>\<open>POST /api/login\<close> tests for (the
    text of its message is the server's; nothing below depends on it).
  The client is an external collaborator of \<^verbatim>\<open>server.js\<close>: every statement about the handlers
  alone is made for an arbitrary client, and \<open>db_client\<close> is used where a claim is about the
  content of the store.
\<close>

record user_chat_row =
  uc_user_id :: string
  uc_chat_id :: string

record chat_row =
  cr_id :: string
  cr_name :: "string option"

record message_row =
  mr_id :: string
  mr_chat_id :: string
  mr_sender_id :: string
  mr_body :: string
  mr_created_at :: nat

text \<open>\<open>db_next_user_id\<close> is the id the store gives the next inserted user.\<close>

record db =
  db_users :: "user list"
  db_chats :: "chat_row list"
  db_user_chats :: "user_chat_row list"
  db_messages :: "message_row list"
  db_next_user_id :: string

definition ok :: "'a \<Rightarrow> 'a qresult" where
  "ok x = \<lparr>data = Some x, error = None\<rparr>"

definition failed :: "store_error \<Rightarrow> 'a qresult" where
  "failed e = \<lparr>data = None, error = Some e\<rparr>"

definition pgrst116 :: store_error where
  "pgrst116 = \<lparr>err_code = ''PGRST116'',
                err_message = ''JSON object requested, multiple (or no) rows returned''\<rparr>"

definition answer :: "(query \<Rightarrow> store_error option) \<Rightarrow> query \<Rightarrow> 'a \<Rightarrow> 'a qresult" where
  "answer faults q rows = (case faults q of Some e \<Rightarrow> failed e | None \<Rightarrow> ok rows)"

definition single :: "'a list qresult \<Rightarrow> 'a qresult" where
  "single r =
     (case error r of
        Some e \<Rightarrow> failed e
      | None \<Rightarrow>
          (case data r of
             Some [x] \<Rightarrow> ok x
           | _ \<Rightarrow> failed pgrst116))"

definition find_user :: "db \<Rightarrow> string \<Rightarrow> user option" where
  "find_user d uid = find (\<lambda>u. u_id u = uid) (db_users d)"

definition participants_of :: "db \<Rightarrow> string \<Rightarrow> participant list" where
  "participants_of d cid =
     map (\<lambda>l. \<lparr>p_user = find_user d (uc_user_id l)\<rparr>)
       (filter (\<lambda>l. uc_chat_id l = cid) (db_user_chats d))"

definition embed_chat :: "db \<Rightarrow> chat_row \<Rightarrow> chat" where
  "embed_chat d c =
     \<lparr>c_id = cr_id c, c_name = cr_name c, c_participants = participants_of d (cr_id c)\<rparr>"

definition chat_messages :: "db \<Rightarrow> string \<Rightarrow> message_row list" where
  "chat_messages d cid = filter (\<lambda>m. mr_chat_id m = cid) (db_messages d)"

definition last_rows :: "db \<Rightarrow> string \<Rightarrow> last_row list" where
  "last_rows d cid =
     map (\<lambda>m. \<lparr>lm_body = mr_body m, lm_created_at = mr_created_at m\<rparr>)
       (take 1 (rev (sort_key mr_created_at (chat_messages d cid))))"

definition embed_message :: "db \<Rightarrow> message_row \<Rightarrow> message" where
  "embed_message d m =
     \<lparr>m_id = mr_id m, m_body = mr_body m, m_created_at = mr_created_at m,
      m_sender_id = mr_sender_id m,
      m_sender = map_option (\<lambda>u. \<lparr>sender_username = u_username u\<rparr>)
                   (find_user d (mr_sender_id m))\<rparr>"

definition db_client :: "db \<Rightarrow> (query \<Rightarrow> store_error option) \<Rightarrow> client" where
  "db_client d faults =
     \<lparr>users_by_username = (\<lambda>name.
        single (answer faults (SelectUserByUsername name)
          (filter (\<lambda>u. u_username u = name) (db_users d)))),
      users_insert = (\<lambda>name.
        single (answer faults (InsertUser name)
          [\<lparr>u_id = db_next_user_id d, u_username = name\<rparr>])),
      user_chats_of = (\<lambda>userId.
        answer faults (SelectUserChats userId)
          (map (\<lambda>l. \<lparr>l_chat_id = uc_chat_id l\<rparr>)
             (filter (\<lambda>l. uc_user_id l = userId) (db_user_chats d)))),
      chats_in = (\<lambda>chatIds.
        answer faults (SelectChatsIn chatIds)
          (map (embed_chat d) (filter (\<lambda>c. cr_id c \<in> set chatIds) (db_chats d)))),
      messages_last = (\<lambda>cid. answer faults (SelectLastMessage cid) (last_rows d cid)),
      chats_by_id = (\<lambda>chatId.
        single (answer faults (SelectChat chatId)
          (map (embed_chat d) (filter (\<lambda>c. cr_id c = chatId) (db_chats d))))),
      messages_of = (\<lambda>chatId.
        answer faults (SelectMessages chatId)
          (map (embed_message d) (sort_key mr_created_at (chat_messages d chatId)))),
      messages_by_id = (\<lambda>messageId.
        single (answer faults (SelectMessage messageId)
          (map (embed_message d) (filter (\<lambda>m. mr_id m = messageId) (db_messages d)))))\<rparr>"

section \<open>Notions the properties are stated with\<close>

text \<open>The chats that phase 2 of \<^verbatim>\<open>GET /api/chats\<close> fetched for a user: the \<^verbatim>\<open>data\<close> of the
  batched query over the chat ids of phase 1 (none when phase 1 found no membership).\<close>

definition fetched_chats :: "client \<Rightarrow> string \<Rightarrow> chat list" where
  "fetched_chats sb uid =
     (case data (user_chats_of sb uid) of
        None \<Rightarrow> []
      | Some links \<Rightarrow>
          if links = [] then []
          else (case data (chats_in sb (map l_chat_id links)) of
                  None \<Rightarrow> []
                | Some chats \<Rightarrow> chats))"

text \<open>The users of a participant list (a participant whose user is null has none).\<close>

definition participant_users :: "participant list \<Rightarrow> user list" where
  "participant_users ps = List.map_filter p_user ps"

text \<open>
  The specification's display-name rule, written from its words and not from the code:
  \<^verbatim>\<open>resolveDisplayName(storedName, participants, requesterId)\<close> is (a) the stored name when it
  is non-empty, (b) else the usernames of the participants whose id is not the requester's,
  joined with a comma and a space, (c) else, with no other participant, the literal New Chat.
\<close>

definition resolveDisplayName :: "string option \<Rightarrow> user list \<Rightarrow> string \<Rightarrow> string" where
  "resolveDisplayName storedName participants requesterId =
     (let others = filter (\<lambda>u. u_id u \<noteq> requesterId) participants;
          derived = (if others = [] then ''New Chat'' else join '', '' (map u_username others))
      in case storedName of
           None \<Rightarrow> derived
         | Some n \<Rightarrow> if n \<noteq> [] then n else derived)"

section \<open>A small store\<close>

text \<open>
  User \<open>u1\<close> (alice) is in three chats: \<open>c1\<close>, without a name, with bob; \<open>c2\<close>, named
  Team, with bob and carol; \<open>c3\<close>, whose name is the empty string, with bob and carol.
  Chat \<open>c1\<close> has the messages yo (time 2) and hi (time 1), stored in this order; \<open>c3\<close> has
  the message hey (time 5); \<open>c2\<close> has none. User \<open>u4\<close> (dave) is in no chat; \<open>u5\<close> (erin)
  is alone in \<open>c4\<close>; \<open>u6\<close> (frank) is in \<open>c5\<close> with a member \<open>u9\<close> that has no row in
  \<^verbatim>\<open>users\<close>.
\<close>

definition alice :: user where "alice = \<lparr>u_id = ''u1'', u_username = ''alice''\<rparr>"
definition bob :: user where "bob = \<lparr>u_id = ''u2'', u_username = ''bob''\<rparr>"
definition carol :: user where "carol = \<lparr>u_id = ''u3'', u_username = ''carol''\<rparr>"
definition dave :: user where "dave = \<lparr>u_id = ''u4'', u_username = ''dave''\<rparr>"
definition erin :: user where "erin = \<lparr>u_id = ''u5'', u_username = ''erin''\<rparr>"
definition frank :: user where "frank = \<lparr>u_id = ''u6'', u_username = ''frank''\<rparr>"

definition member_of :: "user \<Rightarrow> participant" where
  "member_of u = \<lparr>p_user = Some u\<rparr>"

definition ex_db :: db where
  "ex_db =
     \<lparr>db_users = [alice, bob, carol, dave, erin, frank],
      db_chats =
        [\<lparr>cr_id = ''c1'', cr_name = None\<rparr>, \<lparr>cr_id = ''c2'', cr_name = Some ''Team''\<rparr>,
         \<lparr>cr_id = ''c3'', cr_name = Some []\<rparr>, \<lparr>cr_id = ''c4'', cr_name = None\<rparr>,
         \<lparr>cr_id = ''c5'', cr_name = None\<rparr>],
      db_user_chats =
        [\<lparr>uc_user_id = ''u1'', uc_chat_id = ''c1''\<rparr>, \<lparr>uc_user_id = ''u2'', uc_chat_id = ''c1''\<rparr>,
         \<lparr>uc_user_id = ''u1'', uc_chat_id = ''c2''\<rparr>, \<lparr>uc_user_id = ''u2'', uc_chat_id = ''c2''\<rparr>,
         \<lparr>uc_user_id = ''u3'', uc_chat_id = ''c2''\<rparr>, \<lparr>uc_user_id = ''u1'', uc_chat_id = ''c3''\<rparr>,
         \<lparr>uc_user_id = ''u2'', uc_chat_id = ''c3''\<rparr>, \<lparr>uc_user_id = ''u3'', uc_chat_id = ''c3''\<rparr>,
         \<lparr>uc_user_id = ''u5'', uc_chat_id = ''c4''\<rparr>, \<lparr>uc_user_id = ''u6'', uc_chat_id = ''c5''\<rparr>,
         \<lparr>uc_user_id = ''u9'', uc_chat_id = ''c5''\<rparr>],
      db_messages =
        [\<lparr>mr_id = ''m2'', mr_chat_id = ''c1'', mr_sender_id = ''u2'', mr_body = ''yo'',
          mr_created_at = 2\<rparr>,
         \<lparr>mr_id = ''m1'', mr_chat_id = ''c1'', mr_sender_id = ''u1'', mr_body = ''hi'',
          mr_created_at = 1\<rparr>,
         \<lparr>mr_id = ''m3'', mr_chat_id = ''c3'', mr_sender_id = ''u3'', mr_body = ''hey'',
          mr_created_at = 5\<rparr>],
      db_next_user_id = ''u7''\<rparr>"

text \<open>A store that answers every query, and one that fails exactly the query \<open>q0\<close>.\<close>

definition no_faults :: "query \<Rightarrow> store_error option" where
  "no_faults q = None"

definition timeout_error :: store_error where
  "timeout_error = \<lparr>err_code = ''57014'', err_message = ''statement timeout''\<rparr>"

definition fault_at :: "query \<Rightarrow> query \<Rightarrow> store_error option" where
  "fault_at q0 q = (if q = q0 then Some timeout_error else None)"

text \<open>What the store answers in phases 1 and 2 for \<open>u1\<close>, \<open>u5\<close> and \<open>u6\<close>, and the
  summaries of the chats of \<open>u1\<close> and \<open>u5\<close>.\<close>

definition links_u1 :: "link list" where
  "links_u1 = [\<lparr>l_chat_id = ''c1''\<rparr>, \<lparr>l_chat_id = ''c2''\<rparr>, \<lparr>l_chat_id = ''c3''\<rparr>]"

definition chats_u1 :: "chat list" where
  "chats_u1 =
     [\<lparr>c_id = ''c1'', c_name = None, c_participants = [member_of alice, member_of bob]\<rparr>,
      \<lparr>c_id = ''c2'', c_name = Some ''Team'',
       c_participants = [member_of alice, member_of bob, member_of carol]\<rparr>,
      \<lparr>c_id = ''c3'', c_name = Some [],
       c_participants = [member_of alice, member_of bob, member_of carol]\<rparr>]"

definition links_u6 :: "link list" where
  "links_u6 = [\<lparr>l_chat_id = ''c5''\<rparr>]"

definition chats_u6 :: "chat list" where
  "chats_u6 =
     [\<lparr>c_id = ''c5'', c_name = None, c_participants = [member_of frank, \<lparr>p_user = None\<rparr>]\<rparr>]"

definition chats_u5 :: "chat list" where
  "chats_u5 = [\<lparr>c_id = ''c4'', c_name = None, c_participants = [member_of erin]\<rparr>]"

definition summary_c4 :: chat_summary where
  "summary_c4 =
     \<lparr>s_id = ''c4'', s_name = ''New Chat'', s_participants = [member_of erin],
      s_lastMessage = None\<rparr>"

definition summary_c1 :: chat_summary where
  "summary_c1 =
     \<lparr>s_id = ''c1'', s_name = ''bob'', s_participants = [member_of alice, member_of bob],
      s_lastMessage = Some \<lparr>body = ''yo'', timestamp = 2\<rparr>\<rparr>"

definition summary_c2 :: chat_summary where
  "summary_c2 =
     \<lparr>s_id = ''c2'', s_name = ''Team'',
      s_participants = [member_of alice, member_of bob, member_of carol],
      s_lastMessage = None\<rparr>"

definition summary_c3 :: chat_summary where
  "summary_c3 =
     \<lparr>s_id = ''c3'', s_name = ''bob, carol'',
      s_participants = [member_of alice, member_of bob, member_of carol],
      s_lastMessage = Some \<lparr>body = ''hey'', timestamp = 5\<rparr>\<rparr>"

definition trace_u1 :: "query list" where
  "trace_u1 =
     [SelectUserChats ''u1'', SelectChatsIn [''c1'', ''c2'', ''c3''],
      SelectLastMessage ''c1'', SelectLastMessage ''c2'', SelectLastMessage ''c3'']"


definition orphan_db :: db where
  "orphan_db =
     ex_db\<lparr>db_messages :=
       db_messages ex_db @
         [\<lparr>mr_id = ''m4'', mr_chat_id = ''c2'', mr_sender_id = ''u9'', mr_body = ''boo'',
           mr_created_at = 7\<rparr>]\<rparr>"

section \<open>Auxiliary facts\<close>

subsection \<open>Promises, names and summaries\<close>

lemma promise_all_map_Inr_self:
  "promise_all (map Inr xs) = Inr xs"
  by (induction xs) auto

lemma promise_all_Inr_D:
  "promise_all ps = Inr xs \<Longrightarrow> ps = map Inr xs"
  by (induction ps arbitrary: xs rule: promise_all.induct) (auto split: sum.splits)

lemma promise_all_Inr:
  "promise_all ps = Inr xs \<longleftrightarrow> ps = map Inr xs"
  using promise_all_Inr_D promise_all_map_Inr_self by blast

lemma promise_all_map_Inr:
  "promise_all (map f cs) = Inr xs \<longleftrightarrow> list_all2 (\<lambda>c x. f c = Inr x) cs xs"
  unfolding promise_all_Inr
  by (induction cs arbitrary: xs) (auto simp: list_all2_Cons1)

lemma promise_all_Inl:
  "promise_all ps = Inl e \<Longrightarrow> Inl e \<in> set ps"
  by (induction ps rule: promise_all.induct) (auto split: sum.splits)

lemma promise_all_isl:
  "isl (promise_all ps) \<longleftrightarrow> (\<exists>p\<in>set ps. isl p)"
  by (induction ps rule: promise_all.induct) (auto split: sum.splits)

lemma usernames_Inl:
  "usernames ps = Inl e \<Longrightarrow> e = TypeError ''username''"
  by (induction ps) (auto split: option.splits sum.splits)

lemma usernames_isl:
  "isl (usernames ps) \<longleftrightarrow> (\<exists>p\<in>set ps. p_user p = None)"
  by (induction ps) (auto split: option.splits sum.splits)

lemma usernames_Inr:
  "usernames ps = Inr ns \<Longrightarrow>
     ns = map u_username (participant_users ps) \<and> (\<forall>p\<in>set ps. p_user p \<noteq> None)"
  by (induction ps arbitrary: ns)
     (auto simp: participant_users_def map_filter_simps split: option.splits sum.splits)

text \<open>A chat's name derivation throws exactly when the chat has no stored name and one of
  its participants has no user: such a participant always passes the filter.\<close>

lemma chatName_isl:
  "isl (chatName uid c) \<longleftrightarrow> falsy (c_name c) \<and> (\<exists>p\<in>set (c_participants c). p_user p = None)"
proof -
  have "(\<exists>p\<in>set (otherParticipants uid (c_participants c)). p_user p = None)
        \<longleftrightarrow> (\<exists>p\<in>set (c_participants c). p_user p = None)"
    by (auto simp: otherParticipants_def)
  moreover have "isl (chatName uid c) \<longleftrightarrow>
      falsy (c_name c) \<and> isl (usernames (otherParticipants uid (c_participants c)))"
    by (cases "usernames (otherParticipants uid (c_participants c))")
       (auto simp: chatName_def usernames_isl[symmetric] split: sum.splits)
  ultimately show ?thesis by (simp add: usernames_isl)
qed

lemma chatName_Inl:
  "chatName uid c = Inl e \<Longrightarrow> e = TypeError ''username''"
  by (auto simp: chatName_def split: if_splits sum.splits dest: usernames_Inl)

lemma others_users:
  assumes "\<forall>p\<in>set ps. p_user p \<noteq> None"
  shows "participant_users (otherParticipants uid ps)
           = filter (\<lambda>u. u_id u \<noteq> uid) (participant_users ps)"
  using assms
  by (induction ps)
     (auto simp: participant_users_def otherParticipants_def map_filter_simps split: option.splits)

lemma length_participant_users:
  "\<forall>p\<in>set ps. p_user p \<noteq> None \<Longrightarrow> length (participant_users ps) = length ps"
  by (induction ps) (auto simp: participant_users_def map_filter_simps)

lemma chatName_Inr:
  assumes "chatName uid c = Inr n"
  shows "n = resolveDisplayName (c_name c) (participant_users (c_participants c)) uid"
proof (cases "falsy (c_name c)")
  case False
  then show ?thesis using assms
    by (cases "c_name c") (auto simp: chatName_def resolveDisplayName_def Let_def)
next
  case True
  have "\<not> isl (chatName uid c)" using assms by simp
  then have all: "\<forall>p\<in>set (c_participants c). p_user p \<noteq> None"
    using True by (simp add: chatName_isl)
  let ?others = "otherParticipants uid (c_participants c)"
  have ou: "participant_users ?others
              = filter (\<lambda>u. u_id u \<noteq> uid) (participant_users (c_participants c))"
    by (rule others_users[OF all])
  have "\<forall>p\<in>set ?others. p_user p \<noteq> None"
    using all by (simp add: otherParticipants_def)
  then have len: "length (participant_users ?others) = length ?others"
    by (rule length_participant_users)
  show ?thesis
  proof (cases "?others = []")
    case e: True
    then have "n = ''New Chat''" using assms True by (simp add: chatName_def)
    moreover have "filter (\<lambda>u. u_id u \<noteq> uid) (participant_users (c_participants c)) = []"
      using ou e by (simp add: participant_users_def map_filter_simps)
    ultimately show ?thesis
      using True by (cases "c_name c") (auto simp: resolveDisplayName_def Let_def)
  next
    case ne: False
    then obtain ns where ns: "usernames ?others = Inr ns" and n: "n = join '', '' ns"
      using assms True by (auto simp: chatName_def split: sum.splits)
    have "ns = map u_username (participant_users ?others)" using usernames_Inr[OF ns] by simp
    moreover have "filter (\<lambda>u. u_id u \<noteq> uid) (participant_users (c_participants c)) \<noteq> []"
      using ou ne len by (metis length_0_conv)
    ultimately show ?thesis using True n ou
      by (cases "c_name c") (auto simp: resolveDisplayName_def Let_def)
  qed
qed

lemma formatChat_Inr:
  "formatChat sb uid c = Inr s \<longleftrightarrow>
     (\<exists>n. chatName uid c = Inr n \<and>
          s = \<lparr>s_id = c_id c, s_name = n, s_participants = c_participants c,
               s_lastMessage = lastMessage (messages_last sb (c_id c))\<rparr>)"
  by (auto simp: formatChat_def Let_def split: sum.splits)

lemma formatChat_isl:
  "isl (formatChat sb uid c) \<longleftrightarrow> isl (chatName uid c)"
  by (simp add: formatChat_def Let_def split: sum.splits)

lemma formatChat_Inl:
  "formatChat sb uid c = Inl e \<Longrightarrow> e = TypeError ''username''"
  by (auto simp: formatChat_def Let_def split: sum.splits dest: chatName_Inl)

text \<open>Which promise of the fan-out is rejected first does not matter: every rejection
  carries the same error.\<close>

lemma phase3_Inl:
  assumes "promise_all (map (formatChat sb uid) chats) = Inl e"
  shows "e = TypeError ''username''"
proof -
  have "Inl e \<in> set (map (formatChat sb uid) chats)" using promise_all_Inl[OF assms] .
  then show ?thesis by (auto dest: formatChat_Inl[OF sym])
qed

lemma phase3_throws:
  "isl (promise_all (map (formatChat sb uid) chats)) \<longleftrightarrow>
     (\<exists>c\<in>set chats. falsy (c_name c) \<and> (\<exists>p\<in>set (c_participants c). p_user p = None))"
  by (simp add: promise_all_isl formatChat_isl chatName_isl)

subsection \<open>The phases of GET /api/chats\<close>

lemma get_chats_200:
  assumes "get_chats sb (Some uid) = (Response 200 (ChatsJson out), tr)"
  shows "uid \<noteq> [] \<and> list_all2 (\<lambda>c s. formatChat sb uid c = Inr s) (fetched_chats sb uid) out"
  using assms
  by (auto simp: get_chats_def fetched_chats_def caught_def Let_def promise_all_map_Inr
           split: option.splits if_splits sum.splits)

lemma list_all2_setD2:
  "list_all2 P xs ys \<Longrightarrow> y \<in> set ys \<Longrightarrow> \<exists>x\<in>set xs. P x y"
  by (induction rule: list_all2_induct) auto

lemma get_chats_200_mem:
  assumes "get_chats sb (Some uid) = (Response 200 (ChatsJson out), tr)" and "s \<in> set out"
  shows "\<exists>c\<in>set (fetched_chats sb uid). formatChat sb uid c = Inr s"
  using get_chats_200[OF assms(1)] assms(2) by (auto dest: list_all2_setD2)

lemma get_chats_phase3:
  assumes "uid \<noteq> []" and "error (user_chats_of sb uid) = None"
    and "data (user_chats_of sb uid) = Some links" and "links \<noteq> []"
    and "error (chats_in sb (map l_chat_id links)) = None"
    and "data (chats_in sb (map l_chat_id links)) = Some chats"
  shows "get_chats sb (Some uid) =
           (case promise_all (map (formatChat sb uid) chats) of
              Inl e \<Rightarrow> caught e
            | Inr formattedChats \<Rightarrow> Response 200 (ChatsJson formattedChats),
            [SelectUserChats uid, SelectChatsIn (map l_chat_id links)]
              @ map (\<lambda>c. SelectLastMessage (c_id c)) chats)"
  using assms by (simp add: get_chats_def Let_def split: sum.splits)




subsection \<open>The answers of the store\<close>

lemma error_answer: "error (answer f q x) = f q"
  by (simp add: answer_def ok_def failed_def split: option.splits)

lemma data_answer: "data (answer f q x) = (if f q = None then Some x else None)"
  by (simp add: answer_def ok_def failed_def split: option.splits)



lemma find_user_Some:
  "find_user d x = Some u \<Longrightarrow> u \<in> set (db_users d) \<and> u_id u = x"
  by (auto simp: find_user_def find_Some_iff)



lemma sorted_last_max:
  "sorted (map f ys) \<Longrightarrow> y \<in> set ys \<Longrightarrow> f y \<le> f (last ys)"
  by (induction ys) auto

lemma last_rows_empty:
  "chat_messages d cid = [] \<Longrightarrow> last_rows d cid = []"
  by (simp add: last_rows_def)

lemma last_rows_newest:
  assumes "chat_messages d cid \<noteq> []"
  shows "\<exists>m\<in>set (chat_messages d cid).
           last_rows d cid = [\<lparr>lm_body = mr_body m, lm_created_at = mr_created_at m\<rparr>] \<and>
           (\<forall>m'\<in>set (chat_messages d cid). mr_created_at m' \<le> mr_created_at m)"
proof -
  let ?ys = "sort_key mr_created_at (chat_messages d cid)"
  have ne: "?ys \<noteq> []" using assms by (metis length_sort length_0_conv)
  then have "?ys = butlast ?ys @ [last ?ys]" by simp
  then have "rev ?ys = rev (butlast ?ys @ [last ?ys])" by simp
  then have r: "rev ?ys = last ?ys # rev (butlast ?ys)" by simp
  have mem: "last ?ys \<in> set (chat_messages d cid)"
    using ne last_in_set[of ?ys] by simp
  have mx: "\<forall>m'\<in>set (chat_messages d cid). mr_created_at m' \<le> mr_created_at (last ?ys)"
    using sorted_last_max[of mr_created_at ?ys] by simp
  have "last_rows d cid =
          [\<lparr>lm_body = mr_body (last ?ys), lm_created_at = mr_created_at (last ?ys)\<rparr>]"
    by (simp add: last_rows_def r)
  then show ?thesis using mem mx by blast
qed

lemma created_at_embed: "map m_created_at (map (embed_message d) ms) = map mr_created_at ms"
  by (simp add: embed_message_def)

text \<open>\<^verbatim>\<open>single()\<close> never answers with neither a row nor an error, so the 404 branches of
  \<^verbatim>\<open>GET /api/chats/:chatId\<close> and \<^verbatim>\<open>GET /api/messages/:messageId\<close> are never taken on this
  client, although a client answering so would be told 404.\<close>

lemma single_error_or_data: "error (single r) \<noteq> None \<or> data (single r) \<noteq> None"
  by (auto simp: single_def ok_def failed_def split: option.splits list.splits)

lemma get_chat_never_404: "status (fst (get_chat (db_client d faults) chatId)) \<noteq> 404"
  using single_error_or_data[of "answer faults (SelectChat chatId)
          (map (embed_chat d) (filter (\<lambda>c. cr_id c = chatId) (db_chats d)))"]
  by (auto simp: get_chat_def db_client_def Let_def split: option.splits)

lemma get_message_never_404: "status (fst (get_message (db_client d faults) messageId)) \<noteq> 404"
  using single_error_or_data[of "answer faults (SelectMessage messageId)
          (map (embed_message d) (filter (\<lambda>m. mr_id m = messageId) (db_messages d)))"]
  by (auto simp: get_message_def db_client_def Let_def split: option.splits)

lemma get_chat_404_branch:
  "error (chats_by_id sb chatId) = None \<Longrightarrow> data (chats_by_id sb chatId) = None \<Longrightarrow>
     fst (get_chat sb chatId) = Response 404 (ErrorJson ''Chat not found'')"
  by (simp add: get_chat_def)

lemma get_message_404_branch:
  "error (messages_by_id sb messageId) = None \<Longrightarrow> data (messages_by_id sb messageId) = None \<Longrightarrow>
     fst (get_message sb messageId) = Response 404 (ErrorJson ''Message not found'')"
  by (simp add: get_message_def)


section \<open>The claims\<close>

subsection \<open>C1: the last message of a chat\<close>

text \<open>
  Claim C1 says that for every chat returned by \<^verbatim>\<open>GET /api/chats\<close> the field
  \<^verbatim>\<open>lastMessage\<close> is the body and \<^verbatim>\<open>created_at\<close> of the message of that chat with the
  maximum \<^verbatim>\<open>created_at\<close>, and null when the chat has no messages. It fails when the store
  fails the last-message query of a chat: the handler never reads \<^verbatim>\<open>lastMessageError\<close>, so
  for user \<open>u1\<close>, with the query of chat \<open>c3\<close> failing, the answer is 200 and the summary of
  \<open>c3\<close> has a null \<^verbatim>\<open>lastMessage\<close> although \<open>c3\<close> has the message hey.
\<close>

theorem C1_counterexample:
  "get_chats (db_client ex_db (fault_at (SelectLastMessage ''c3''))) (Some ''u1'') =
     (Response 200 (ChatsJson [summary_c1, summary_c2, summary_c3\<lparr>s_lastMessage := None\<rparr>]),
      trace_u1) \<and>
   s_lastMessage (summary_c3\<lparr>s_lastMessage := None\<rparr>) = None \<and>
   chat_messages ex_db ''c3'' =
     [\<lparr>mr_id = ''m3'', mr_chat_id = ''c3'', mr_sender_id = ''u3'', mr_body = ''hey'',
       mr_created_at = 5\<rparr>]"
  by code_simp

text \<open>
  Claim C1 as amended: for every chat returned by \<^verbatim>\<open>GET /api/chats\<close> whose last-message
  query the store answered, \<^verbatim>\<open>lastMessage\<close> is null when the chat has no messages and
  otherwise the body and \<^verbatim>\<open>created_at\<close> of a message of that chat with the maximum
  \<^verbatim>\<open>created_at\<close>; for a chat whose last-message query failed, \<^verbatim>\<open>lastMessage\<close> is null.
\<close>

theorem C1_last_message:
  assumes "get_chats (db_client d faults) (Some uid) = (Response 200 (ChatsJson out), tr)"
    and "s \<in> set out"
  shows "(faults (SelectLastMessage (s_id s)) = None \<and> chat_messages d (s_id s) = [] \<longrightarrow>
            s_lastMessage s = None) \<and>
         (faults (SelectLastMessage (s_id s)) = None \<and> chat_messages d (s_id s) \<noteq> [] \<longrightarrow>
            (\<exists>m\<in>set (chat_messages d (s_id s)).
               s_lastMessage s = Some \<lparr>body = mr_body m, timestamp = mr_created_at m\<rparr> \<and>
               (\<forall>m'\<in>set (chat_messages d (s_id s)). mr_created_at m' \<le> mr_created_at m))) \<and>
         (faults (SelectLastMessage (s_id s)) \<noteq> None \<longrightarrow> s_lastMessage s = None)"
proof -
  obtain c where f: "formatChat (db_client d faults) uid c = Inr s"
    using get_chats_200_mem[OF assms] by blast
  then have lm: "s_lastMessage s =
      lastMessage (answer faults (SelectLastMessage (s_id s)) (last_rows d (s_id s)))"
    by (auto simp: formatChat_Inr db_client_def)
  show ?thesis
  proof (intro conjI impI)
    assume "faults (SelectLastMessage (s_id s)) = None \<and> chat_messages d (s_id s) = []"
    then show "s_lastMessage s = None"
      using lm by (simp add: lastMessage_def data_answer last_rows_empty)
  next
    assume a: "faults (SelectLastMessage (s_id s)) = None \<and> chat_messages d (s_id s) \<noteq> []"
    then obtain m where m: "m \<in> set (chat_messages d (s_id s))"
      "last_rows d (s_id s) = [\<lparr>lm_body = mr_body m, lm_created_at = mr_created_at m\<rparr>]"
      "\<forall>m'\<in>set (chat_messages d (s_id s)). mr_created_at m' \<le> mr_created_at m"
      using last_rows_newest[of d "s_id s"] by blast
    have "s_lastMessage s = Some \<lparr>body = mr_body m, timestamp = mr_created_at m\<rparr>"
      using lm a m(2) by (simp add: lastMessage_def data_answer)
    then show "\<exists>m\<in>set (chat_messages d (s_id s)).
               s_lastMessage s = Some \<lparr>body = mr_body m, timestamp = mr_created_at m\<rparr> \<and>
               (\<forall>m'\<in>set (chat_messages d (s_id s)). mr_created_at m' \<le> mr_created_at m)"
      using m(1) m(3) by blast
  next
    assume "faults (SelectLastMessage (s_id s)) \<noteq> None"
    then show "s_lastMessage s = None"
      using lm by (auto simp: lastMessage_def data_answer)
  qed
qed

text \<open>The three cases at user \<open>u1\<close>, with the last-message query of \<open>c3\<close> failing: \<open>c1\<close> has
  messages and its query is answered, \<open>c2\<close> has no message, the query of \<open>c3\<close> fails.\<close>

theorem C1_last_message_witness:
  "get_chats (db_client ex_db (fault_at (SelectLastMessage ''c3''))) (Some ''u1'') =
     (Response 200 (ChatsJson [summary_c1, summary_c2, summary_c3\<lparr>s_lastMessage := None\<rparr>]),
      trace_u1) \<and>
   (\<exists>m\<in>set (chat_messages ex_db ''c1'').
      s_lastMessage summary_c1 = Some \<lparr>body = mr_body m, timestamp = mr_created_at m\<rparr> \<and>
      (\<forall>m'\<in>set (chat_messages ex_db ''c1''). mr_created_at m' \<le> mr_created_at m)) \<and>
   chat_messages ex_db ''c2'' = [] \<and> s_lastMessage summary_c2 = None \<and>
   fault_at (SelectLastMessage ''c3'') (SelectLastMessage ''c3'') = Some timeout_error \<and>
   s_lastMessage (summary_c3\<lparr>s_lastMessage := None\<rparr>) = None"
proof -
  let ?f = "fault_at (SelectLastMessage ''c3'')"
  let ?out = "[summary_c1, summary_c2, summary_c3\<lparr>s_lastMessage := None\<rparr>]"
  have run: "get_chats (db_client ex_db ?f) (Some ''u1'') = (Response 200 (ChatsJson ?out), trace_u1)"
    by code_simp
  have id1: "s_id summary_c1 = ''c1''" and id2: "s_id summary_c2 = ''c2''"
    and id3: "s_id (summary_c3\<lparr>s_lastMessage := None\<rparr>) = ''c3''"
    by (simp_all add: summary_c1_def summary_c2_def summary_c3_def)
  have f1: "?f (SelectLastMessage ''c1'') = None" and f2: "?f (SelectLastMessage ''c2'') = None"
    and f3: "?f (SelectLastMessage ''c3'') = Some timeout_error"
    by (simp_all add: fault_at_def)
  have m1: "chat_messages ex_db ''c1'' \<noteq> []" and m2: "chat_messages ex_db ''c2'' = []"
    by (simp_all add: chat_messages_def ex_db_def)
  have c1: "\<exists>m\<in>set (chat_messages ex_db ''c1'').
      s_lastMessage summary_c1 = Some \<lparr>body = mr_body m, timestamp = mr_created_at m\<rparr> \<and>
      (\<forall>m'\<in>set (chat_messages ex_db ''c1''). mr_created_at m' \<le> mr_created_at m)"
    using C1_last_message[OF run, of summary_c1] f1 m1 by (simp add: id1)
  have c2: "s_lastMessage summary_c2 = None"
    using C1_last_message[OF run, of summary_c2] f2 m2 by (simp add: id2)
  have c3: "s_lastMessage (summary_c3\<lparr>s_lastMessage := None\<rparr>) = None"
    using C1_last_message[OF run, of "summary_c3\<lparr>s_lastMessage := None\<rparr>"] f3 by (simp add: id3)
  show ?thesis using run c1 m2 c2 f3 c3 by blast
qed

subsection \<open>C2: the display name\<close>

text \<open>
  Claim C2: for every chat in the answer of \<^verbatim>\<open>GET /api/chats\<close> the name follows the rule
  \<open>resolveDisplayName\<close>: (a) the stored name when it is non-empty; (b) otherwise the usernames
  of the participants whose id is not the requesting \<^verbatim>\<open>userId\<close>, joined with a comma and a
  space, in the order of the participant list; (c) the literal New Chat when there is no such
  participant. The summaries stand in the order of the fetched chats, each with its chat's id.
\<close>

theorem C2_display_name:
  assumes "get_chats sb (Some uid) = (Response 200 (ChatsJson out), tr)"
  shows "list_all2
           (\<lambda>c s. s_id s = c_id c \<and>
                  s_name s = resolveDisplayName (c_name c) (participant_users (c_participants c)) uid)
           (fetched_chats sb uid) out"
proof -
  have "list_all2 (\<lambda>c s. formatChat sb uid c = Inr s) (fetched_chats sb uid) out"
    using get_chats_200[OF assms] by simp
  then show ?thesis
    by (rule list_all2_mono) (auto simp: formatChat_Inr dest: chatName_Inr)
qed

text \<open>User \<open>u1\<close> meets rule (b) with one other participant (\<open>c1\<close>), rule (a) (\<open>c2\<close>) and
  rule (b) with two others under an empty stored name (\<open>c3\<close>); user \<open>u5\<close>, alone in her
  chat, meets rule (c).\<close>

theorem C2_display_name_witness:
  "get_chats (db_client ex_db no_faults) (Some ''u1'') =
     (Response 200 (ChatsJson [summary_c1, summary_c2, summary_c3]), trace_u1) \<and>
   fetched_chats (db_client ex_db no_faults) ''u1'' = chats_u1 \<and>
   list_all2
     (\<lambda>c s. s_id s = c_id c \<and>
            s_name s = resolveDisplayName (c_name c) (participant_users (c_participants c)) ''u1'')
     chats_u1 [summary_c1, summary_c2, summary_c3] \<and>
   map s_name [summary_c1, summary_c2, summary_c3] = [''bob'', ''Team'', ''bob, carol''] \<and>
   get_chats (db_client ex_db no_faults) (Some ''u5'') =
     (Response 200 (ChatsJson [summary_c4]),
      [SelectUserChats ''u5'', SelectChatsIn [''c4''], SelectLastMessage ''c4'']) \<and>
   fetched_chats (db_client ex_db no_faults) ''u5'' = chats_u5 \<and>
   list_all2
     (\<lambda>c s. s_id s = c_id c \<and>
            s_name s = resolveDisplayName (c_name c) (participant_users (c_participants c)) ''u5'')
     chats_u5 [summary_c4] \<and>
   s_name summary_c4 = ''New Chat''"
proof -
  let ?sb = "db_client ex_db no_faults"
  have run: "get_chats ?sb (Some ''u1'') =
     (Response 200 (ChatsJson [summary_c1, summary_c2, summary_c3]), trace_u1)"
    by code_simp
  have fc: "fetched_chats ?sb ''u1'' = chats_u1"
    by code_simp
  have nm: "map s_name [summary_c1, summary_c2, summary_c3] = [''bob'', ''Team'', ''bob, carol'']"
    by (simp add: summary_c1_def summary_c2_def summary_c3_def)
  have run5: "get_chats ?sb (Some ''u5'') =
     (Response 200 (ChatsJson [summary_c4]),
      [SelectUserChats ''u5'', SelectChatsIn [''c4''], SelectLastMessage ''c4''])"
    by code_simp
  have fc5: "fetched_chats ?sb ''u5'' = chats_u5"
    by code_simp
  have nm5: "s_name summary_c4 = ''New Chat''"
    by (simp add: summary_c4_def)
  have a: "list_all2
     (\<lambda>c s. s_id s = c_id c \<and>
            s_name s = resolveDisplayName (c_name c) (participant_users (c_participants c)) ''u1'')
     chats_u1 [summary_c1, summary_c2, summary_c3]"
    using C2_display_name[OF run] fc by simp
  have b: "list_all2
     (\<lambda>c s. s_id s = c_id c \<and>
            s_name s = resolveDisplayName (c_name c) (participant_users (c_participants c)) ''u5'')
     chats_u5 [summary_c4]"
    using C2_display_name[OF run5] fc5 by simp
  show ?thesis using run fc a nm run5 fc5 b nm5 by blast
qed

subsection \<open>C3: a failing last-message fetch\<close>

text \<open>
  Claim C3 says that a failing per-chat last-message fetch aborts the whole operation with
  a single 500. It fails: the client answers a failed query with \<^verbatim>\<open>{ data: null, error }\<close>,
  the handler never reads \<^verbatim>\<open>lastMessageError\<close> and guards the null \<^verbatim>\<open>data\<close>. For user \<open>u1\<close>, with
  the last-message query of chat \<open>c3\<close> issued and failing, the answer is 200.
\<close>

theorem C3_counterexample:
  "error (messages_last (db_client ex_db (fault_at (SelectLastMessage ''c3''))) ''c3'')
     = Some timeout_error \<and>
   SelectLastMessage ''c3''
     \<in> set (snd (get_chats (db_client ex_db (fault_at (SelectLastMessage ''c3''))) (Some ''u1''))) \<and>
   status (fst (get_chats (db_client ex_db (fault_at (SelectLastMessage ''c3''))) (Some ''u1'')))
     = 200"
  by code_simp

text \<open>
  Claim C3 as amended: once phases 1 and 2 have succeeded, a failing per-chat last-message
  fetch does not abort the operation; the operation aborts through the aggregate-failure
  path (a single 500 answer) when the per-chat step of any one chat throws, which it does for
  a chat without a stored name that has a participant whose user is null, so that one such
  chat fails the entire request; when no chat is such, the answer is 200 whatever the
  last-message fetches answered.
\<close>

theorem C3_abort_only_on_throw:
  assumes "uid \<noteq> []" and "error (user_chats_of sb uid) = None"
    and "data (user_chats_of sb uid) = Some links" and "links \<noteq> []"
    and "error (chats_in sb (map l_chat_id links)) = None"
    and "data (chats_in sb (map l_chat_id links)) = Some chats"
  shows "((\<exists>c\<in>set chats. falsy (c_name c) \<and> (\<exists>p\<in>set (c_participants c). p_user p = None)) \<longrightarrow>
            fst (get_chats sb (Some uid)) =
              Response 500 (ErrorJson (exn_message (TypeError ''username'')))) \<and>
         (\<not> (\<exists>c\<in>set chats. falsy (c_name c) \<and> (\<exists>p\<in>set (c_participants c). p_user p = None)) \<longrightarrow>
            status (fst (get_chats sb (Some uid))) = 200)"
proof (cases "promise_all (map (formatChat sb uid) chats)")
  case (Inl e)
  then have "e = TypeError ''username''" by (rule phase3_Inl)
  moreover have "\<exists>c\<in>set chats. falsy (c_name c) \<and> (\<exists>p\<in>set (c_participants c). p_user p = None)"
    using Inl phase3_throws[of sb uid chats] by simp
  ultimately show ?thesis
    using Inl by (simp add: get_chats_phase3[OF assms] caught_def)
next
  case (Inr xs)
  then have "\<not> (\<exists>c\<in>set chats. falsy (c_name c) \<and> (\<exists>p\<in>set (c_participants c). p_user p = None))"
    using phase3_throws[of sb uid chats] by simp
  then show ?thesis
    using Inr by (simp add: get_chats_phase3[OF assms])
qed

text \<open>User \<open>u6\<close> is in the unnamed chat \<open>c5\<close>, which has a member without a user: the
  request fails as a whole. User \<open>u1\<close> has no such chat: the answer is 200 although the
  last-message query of \<open>c3\<close> fails.\<close>

theorem C3_abort_only_on_throw_witness:
  "data (user_chats_of (db_client ex_db no_faults) ''u6'') = Some links_u6 \<and>
   data (chats_in (db_client ex_db no_faults) (map l_chat_id links_u6)) = Some chats_u6 \<and>
   (\<exists>c\<in>set chats_u6. falsy (c_name c) \<and> (\<exists>p\<in>set (c_participants c). p_user p = None)) \<and>
   fst (get_chats (db_client ex_db no_faults) (Some ''u6'')) =
     Response 500 (ErrorJson ''Cannot read properties of null (reading 'username')'') \<and>
   data (user_chats_of (db_client ex_db (fault_at (SelectLastMessage ''c3''))) ''u1'')
     = Some links_u1 \<and>
   data (chats_in (db_client ex_db (fault_at (SelectLastMessage ''c3''))) (map l_chat_id links_u1))
     = Some chats_u1 \<and>
   \<not> (\<exists>c\<in>set chats_u1. falsy (c_name c) \<and> (\<exists>p\<in>set (c_participants c). p_user p = None)) \<and>
   status (fst (get_chats (db_client ex_db (fault_at (SelectLastMessage ''c3''))) (Some ''u1'')))
     = 200"
proof -
  let ?a = "db_client ex_db no_faults"
  let ?b = "db_client ex_db (fault_at (SelectLastMessage ''c3''))"
  have a1: "''u6'' \<noteq> []" by simp
  have a2: "error (user_chats_of ?a ''u6'') = None" by code_simp
  have a3: "data (user_chats_of ?a ''u6'') = Some links_u6" by code_simp
  have a4: "links_u6 \<noteq> []" by (simp add: links_u6_def)
  have a5: "error (chats_in ?a (map l_chat_id links_u6)) = None" by code_simp
  have a6: "data (chats_in ?a (map l_chat_id links_u6)) = Some chats_u6" by code_simp
  have a7: "\<exists>c\<in>set chats_u6. falsy (c_name c) \<and> (\<exists>p\<in>set (c_participants c). p_user p = None)"
    by (simp add: chats_u6_def)
  have a: "fst (get_chats ?a (Some ''u6'')) =
     Response 500 (ErrorJson ''Cannot read properties of null (reading 'username')'')"
    using C3_abort_only_on_throw[OF a1 a2 a3 a4 a5 a6] a7 by simp
  have b1: "''u1'' \<noteq> []" by simp
  have b2: "error (user_chats_of ?b ''u1'') = None" by code_simp
  have b3: "data (user_chats_of ?b ''u1'') = Some links_u1" by code_simp
  have b4: "links_u1 \<noteq> []" by (simp add: links_u1_def)
  have b5: "error (chats_in ?b (map l_chat_id links_u1)) = None" by code_simp
  have b6: "data (chats_in ?b (map l_chat_id links_u1)) = Some chats_u1" by code_simp
  have b7: "\<not> (\<exists>c\<in>set chats_u1. falsy (c_name c) \<and> (\<exists>p\<in>set (c_participants c). p_user p = None))"
    by (simp add: chats_u1_def member_of_def)
  have b: "status (fst (get_chats ?b (Some ''u1''))) = 200"
    using C3_abort_only_on_throw[OF b1 b2 b3 b4 b5 b6] b7 by blast
  show ?thesis using a3 a6 a7 a b3 b6 b7 b by blast
qed

subsection \<open>C4: failures of phase 1 and phase 2\<close>

text \<open>
  Claim C4: when the membership query of phase 1 fails, or phase 1 succeeds with a membership
  and the batched chat query of phase 2 fails, \<^verbatim>\<open>GET /api/chats\<close> answers with a single 500
  whose body carries the message of the store error, and nothing else: no chat summary is
  returned and no later query is issued.
\<close>

theorem C4_phase1_phase2_failure:
  assumes "uid \<noteq> []"
  shows "(error (user_chats_of sb uid) = Some e \<longrightarrow>
            get_chats sb (Some uid) =
              (Response 500 (ErrorJson (err_message e)), [SelectUserChats uid])) \<and>
         (error (user_chats_of sb uid) = None \<and> data (user_chats_of sb uid) = Some links \<and>
          links \<noteq> [] \<and> error (chats_in sb (map l_chat_id links)) = Some e \<longrightarrow>
            get_chats sb (Some uid) =
              (Response 500 (ErrorJson (err_message e)),
               [SelectUserChats uid, SelectChatsIn (map l_chat_id links)]))"
  using assms by (simp add: get_chats_def caught_def Let_def)

text \<open>For user \<open>u1\<close>, a store that fails the membership query and a store that fails the
  batched chat query.\<close>

theorem C4_phase1_phase2_failure_witness:
  "error (user_chats_of (db_client ex_db (fault_at (SelectUserChats ''u1''))) ''u1'')
     = Some timeout_error \<and>
   get_chats (db_client ex_db (fault_at (SelectUserChats ''u1''))) (Some ''u1'') =
     (Response 500 (ErrorJson ''statement timeout''), [SelectUserChats ''u1'']) \<and>
   data (user_chats_of (db_client ex_db (fault_at (SelectChatsIn [''c1'', ''c2'', ''c3'']))) ''u1'')
     = Some links_u1 \<and>
   error (chats_in (db_client ex_db (fault_at (SelectChatsIn [''c1'', ''c2'', ''c3''])))
            (map l_chat_id links_u1)) = Some timeout_error \<and>
   get_chats (db_client ex_db (fault_at (SelectChatsIn [''c1'', ''c2'', ''c3'']))) (Some ''u1'') =
     (Response 500 (ErrorJson ''statement timeout''),
      [SelectUserChats ''u1'', SelectChatsIn [''c1'', ''c2'', ''c3'']])"
proof -
  let ?a = "db_client ex_db (fault_at (SelectUserChats ''u1''))"
  let ?b = "db_client ex_db (fault_at (SelectChatsIn [''c1'', ''c2'', ''c3'']))"
  have u: "''u1'' \<noteq> []" by simp
  have m: "err_message timeout_error = ''statement timeout''" by (simp add: timeout_error_def)
  have ids: "map l_chat_id links_u1 = [''c1'', ''c2'', ''c3'']" by (simp add: links_u1_def)
  have a1: "error (user_chats_of ?a ''u1'') = Some timeout_error" by code_simp
  have a: "get_chats ?a (Some ''u1'') =
     (Response 500 (ErrorJson ''statement timeout''), [SelectUserChats ''u1''])"
    using C4_phase1_phase2_failure[OF u, of ?a timeout_error] a1 m by simp
  have b1: "error (user_chats_of ?b ''u1'') = None" by code_simp
  have b2: "data (user_chats_of ?b ''u1'') = Some links_u1" by code_simp
  have b3: "links_u1 \<noteq> []" by (simp add: links_u1_def)
  have b4: "error (chats_in ?b (map l_chat_id links_u1)) = Some timeout_error" by code_simp
  have b: "get_chats ?b (Some ''u1'') =
     (Response 500 (ErrorJson ''statement timeout''),
      [SelectUserChats ''u1'', SelectChatsIn [''c1'', ''c2'', ''c3'']])"
    using C4_phase1_phase2_failure[OF u, of ?b timeout_error links_u1] b1 b2 b3 b4 m ids by simp
  show ?thesis using a1 a b2 b4 b by blast
qed

subsection \<open>C5: a user without memberships\<close>

text \<open>
  Claim C5: when the membership query finds no row for the user, \<^verbatim>\<open>GET /api/chats\<close> answers
  200 with the empty sequence, and the membership query is the only query issued: no chat
  query and no message query. So it is for every client that answers the membership query
  with no row, and over a store for every user without a row in \<^verbatim>\<open>user_chats\<close>.
\<close>

theorem C5_no_memberships_short_circuit:
  assumes "uid \<noteq> []"
  shows "(error (user_chats_of sb uid) = None \<and> data (user_chats_of sb uid) = Some [] \<longrightarrow>
            get_chats sb (Some uid) = (Response 200 (ChatsJson []), [SelectUserChats uid])) \<and>
         (faults (SelectUserChats uid) = None \<and>
          filter (\<lambda>l. uc_user_id l = uid) (db_user_chats d) = [] \<longrightarrow>
            get_chats (db_client d faults) (Some uid) =
              (Response 200 (ChatsJson []), [SelectUserChats uid]))"
  using assms by (simp add: get_chats_def db_client_def error_answer data_answer)

text \<open>User \<open>u4\<close> has no row in \<^verbatim>\<open>user_chats\<close>.\<close>

theorem C5_no_memberships_short_circuit_witness:
  "filter (\<lambda>l. uc_user_id l = ''u4'') (db_user_chats ex_db) = [] \<and>
   error (user_chats_of (db_client ex_db no_faults) ''u4'') = None \<and>
   data (user_chats_of (db_client ex_db no_faults) ''u4'') = Some [] \<and>
   get_chats (db_client ex_db no_faults) (Some ''u4'') =
     (Response 200 (ChatsJson []), [SelectUserChats ''u4''])"
proof -
  let ?sb = "db_client ex_db no_faults"
  have h0: "filter (\<lambda>l. uc_user_id l = ''u4'') (db_user_chats ex_db) = []"
    by (simp add: ex_db_def)
  have h1: "''u4'' \<noteq> []" by simp
  have h2: "error (user_chats_of ?sb ''u4'') = None" by code_simp
  have h3: "data (user_chats_of ?sb ''u4'') = Some []" by code_simp
  have h4: "no_faults (SelectUserChats ''u4'') = None" by (simp add: no_faults_def)
  have a: "get_chats ?sb (Some ''u4'') = (Response 200 (ChatsJson []), [SelectUserChats ''u4''])"
    using C5_no_memberships_short_circuit[OF h1, of ?sb no_faults ex_db] h2 h3 by blast
  have b: "get_chats (db_client ex_db no_faults) (Some ''u4'') =
             (Response 200 (ChatsJson []), [SelectUserChats ''u4''])"
    using C5_no_memberships_short_circuit[OF h1, of ?sb no_faults ex_db] h4 h0 by blast
  show ?thesis using h0 h2 h3 a b by blast
qed

subsection \<open>C6: the participants of a summary\<close>




subsection \<open>C7: a chat or message that does not exist\<close>

text \<open>
  Claim C7 says that \<^verbatim>\<open>GET /api/chats/:chatId\<close> answers 404 when no chat has that id, and
  \<^verbatim>\<open>GET /api/messages/:messageId\<close> answers 404 when no message has that id. Both handlers
  end their query with \<^verbatim>\<open>single()\<close>, which answers a missing row with the error
  \<^verbatim>\<open>PGRST116\<close> (the code \<^verbatim>\<open>POST /api/login\<close> treats as not found), and both test
  \<^verbatim>\<open>error\<close> before \<^verbatim>\<open>data\<close>: in the small store, which has no chat \<open>c9\<close> and no message
  \<open>m9\<close>, both requests are answered 500; the 404 branch is never reached over a store
  (\<open>get_chat_never_404\<close>, \<open>get_message_never_404\<close>).
\<close>

theorem C7_not_found_answers_500:
  "filter (\<lambda>c. cr_id c = ''c9'') (db_chats ex_db) = [] \<and>
   get_chat (db_client ex_db no_faults) ''c9'' =
     (Response 500 (ErrorJson (err_message pgrst116)), [SelectChat ''c9'']) \<and>
   filter (\<lambda>m. mr_id m = ''m9'') (db_messages ex_db) = [] \<and>
   get_message (db_client ex_db no_faults) ''m9'' =
     (Response 500 (ErrorJson (err_message pgrst116)), [SelectMessage ''m9''])"
  by code_simp

subsection \<open>C8: login\<close>

text \<open>
  Claim C8: \<^verbatim>\<open>POST /api/login\<close> answers 400 when the username is missing, without a
  query; when the lookup fails with the code \<^verbatim>\<open>PGRST116\<close> it inserts the user and answers
  200 with the inserted user; an insert error, or a lookup error of any other code, gives
  500 with that error's message; a lookup that succeeds gives 200 with the user found and
  no insert.
\<close>

theorem C8_login:
  "(falsy username \<longrightarrow>
      post_login sb username = (Response 400 (ErrorJson ''Username is required''), [])) \<and>
   (name \<noteq> [] \<and> error (users_by_username sb name) = Some e \<and> err_code e = ''PGRST116'' \<and>
    error (users_insert sb name) = None \<and> data (users_insert sb name) = Some u \<longrightarrow>
      post_login sb (Some name) =
        (Response 200 (UserJson u), [SelectUserByUsername name, InsertUser name])) \<and>
   (name \<noteq> [] \<and> error (users_by_username sb name) = Some e \<and> err_code e = ''PGRST116'' \<and>
    error (users_insert sb name) = Some e2 \<longrightarrow>
      post_login sb (Some name) =
        (Response 500 (ErrorJson (err_message e2)),
         [SelectUserByUsername name, InsertUser name])) \<and>
   (name \<noteq> [] \<and> error (users_by_username sb name) = Some e \<and> err_code e \<noteq> ''PGRST116'' \<longrightarrow>
      post_login sb (Some name) =
        (Response 500 (ErrorJson (err_message e)), [SelectUserByUsername name])) \<and>
   (name \<noteq> [] \<and> error (users_by_username sb name) = None \<and>
    data (users_by_username sb name) = Some u \<longrightarrow>
      post_login sb (Some name) = (Response 200 (UserJson u), [SelectUserByUsername name]))"
  by (cases username) (simp_all add: post_login_def Let_def)

text \<open>No username; the unknown name zed, with the insert answered and with the insert
  failing; the known name bob, with the lookup failing and with the lookup answered.\<close>

theorem C8_login_witness:
  "post_login (db_client ex_db no_faults) None =
     (Response 400 (ErrorJson ''Username is required''), []) \<and>
   error (users_by_username (db_client ex_db no_faults) ''zed'') = Some pgrst116 \<and>
   post_login (db_client ex_db no_faults) (Some ''zed'') =
     (Response 200 (UserJson \<lparr>u_id = ''u7'', u_username = ''zed''\<rparr>),
      [SelectUserByUsername ''zed'', InsertUser ''zed'']) \<and>
   error (users_insert (db_client ex_db (fault_at (InsertUser ''zed''))) ''zed'')
     = Some timeout_error \<and>
   post_login (db_client ex_db (fault_at (InsertUser ''zed''))) (Some ''zed'') =
     (Response 500 (ErrorJson ''statement timeout''),
      [SelectUserByUsername ''zed'', InsertUser ''zed'']) \<and>
   error (users_by_username (db_client ex_db (fault_at (SelectUserByUsername ''bob''))) ''bob'')
     = Some timeout_error \<and>
   post_login (db_client ex_db (fault_at (SelectUserByUsername ''bob''))) (Some ''bob'') =
     (Response 500 (ErrorJson ''statement timeout''), [SelectUserByUsername ''bob'']) \<and>
   data (users_by_username (db_client ex_db no_faults) ''bob'') = Some bob \<and>
   post_login (db_client ex_db no_faults) (Some ''bob'') =
     (Response 200 (UserJson bob), [SelectUserByUsername ''bob''])"
proof -
  let ?a = "db_client ex_db no_faults"
  let ?b = "db_client ex_db (fault_at (InsertUser ''zed''))"
  let ?c = "db_client ex_db (fault_at (SelectUserByUsername ''bob''))"
  let ?zed = "\<lparr>u_id = ''u7'', u_username = ''zed''\<rparr>"
  have z: "''zed'' \<noteq> []" and b: "''bob'' \<noteq> []" by simp_all
  have code: "err_code pgrst116 = ''PGRST116''" "err_code timeout_error \<noteq> ''PGRST116''"
    "err_message timeout_error = ''statement timeout''"
    by (simp_all add: pgrst116_def timeout_error_def)
  have w1: "post_login ?a None = (Response 400 (ErrorJson ''Username is required''), [])"
    using C8_login[where username = None and sb = ?a] by simp
  have h2: "error (users_by_username ?a ''zed'') = Some pgrst116"
    "error (users_insert ?a ''zed'') = None" "data (users_insert ?a ''zed'') = Some ?zed"
    by code_simp+
  have w2: "post_login ?a (Some ''zed'') =
     (Response 200 (UserJson ?zed), [SelectUserByUsername ''zed'', InsertUser ''zed''])"
    using C8_login[where sb = ?a and name = "''zed''" and e = pgrst116 and u = ?zed]
      z h2 code(1) by blast
  have h3: "error (users_by_username ?b ''zed'') = Some pgrst116"
    "error (users_insert ?b ''zed'') = Some timeout_error"
    by code_simp+
  have w3: "post_login ?b (Some ''zed'') =
     (Response 500 (ErrorJson ''statement timeout''),
      [SelectUserByUsername ''zed'', InsertUser ''zed''])"
    using C8_login[where sb = ?b and name = "''zed''" and e = pgrst116 and ?e2.0 = timeout_error]
      z h3 code(1) code(3) by metis
  have h4: "error (users_by_username ?c ''bob'') = Some timeout_error" by code_simp
  have w4: "post_login ?c (Some ''bob'') =
     (Response 500 (ErrorJson ''statement timeout''), [SelectUserByUsername ''bob''])"
    using C8_login[where sb = ?c and name = "''bob''" and e = timeout_error]
      b h4 code(2) code(3) by metis
  have h5: "error (users_by_username ?a ''bob'') = None"
    "data (users_by_username ?a ''bob'') = Some bob"
    by code_simp+
  have w5: "post_login ?a (Some ''bob'') =
     (Response 200 (UserJson bob), [SelectUserByUsername ''bob''])"
    using C8_login[where sb = ?a and name = "''bob''" and u = bob] b h5 by blast
  show ?thesis using w1 h2(1) w2 h3(2) w3 h4 w4 h5(2) w5 by blast
qed

subsection \<open>C9: the messages of a chat\<close>

text \<open>
  Claim C9 says that a successful \<^verbatim>\<open>GET /api/chats/:chatId/messages\<close> returns all messages
  of the chat, ordered by \<^verbatim>\<open>created_at\<close> ascending, each with the username of its sender
  expanded inline. The last part fails for a message whose \<^verbatim>\<open>sender_id\<close> has no row in
  \<^verbatim>\<open>users\<close>: the embedded \<^verbatim>\<open>sender\<close> is null and the handler returns the rows as they
  are. In the small store with the message boo of the unknown sender \<open>u9\<close> in chat \<open>c2\<close>,
  the answer is 200 with a null sender.
\<close>

theorem C9_counterexample:
  "find_user orphan_db ''u9'' = None \<and>
   get_chat_messages (db_client orphan_db no_faults) ''c2'' =
     (Response 200 (MessagesJson
        [\<lparr>m_id = ''m4'', m_body = ''boo'', m_created_at = 7, m_sender_id = ''u9'',
          m_sender = None\<rparr>]),
      [SelectMessages ''c2''])"
  by code_simp

text \<open>
  Claim C9 as amended: when \<^verbatim>\<open>GET /api/chats/:chatId/messages\<close> succeeds (status 200),
  over a store, its body is the sequence of all messages of that chat and only those,
  ordered by \<^verbatim>\<open>created_at\<close> ascending, each with its \<^verbatim>\<open>sender\<close> embedded: the username of
  the user whose id is the message's \<^verbatim>\<open>sender_id\<close>, or null when no such user exists; when
  every message of the chat has its sender in \<^verbatim>\<open>users\<close>, every message carries its sender's
  username.
\<close>

theorem C9_messages_ascending:
  assumes "status (fst (get_chat_messages (db_client d faults) chatId)) = 200"
  shows "\<exists>ms. get_chat_messages (db_client d faults) chatId =
                 (Response 200 (MessagesJson ms), [SelectMessages chatId]) \<and>
              sorted (map m_created_at ms) \<and>
              mset ms = image_mset (embed_message d) (mset (chat_messages d chatId)) \<and>
              (\<forall>m\<in>set ms. m_sender m =
                 map_option (\<lambda>u. \<lparr>sender_username = u_username u\<rparr>)
                   (find_user d (m_sender_id m))) \<and>
              ((\<forall>r\<in>set (chat_messages d chatId). find_user d (mr_sender_id r) \<noteq> None) \<longrightarrow>
               (\<forall>m\<in>set ms. \<exists>u\<in>set (db_users d).
                  u_id u = m_sender_id m \<and> m_sender m = Some \<lparr>sender_username = u_username u\<rparr>))"
proof -
  let ?ms = "map (embed_message d) (sort_key mr_created_at (chat_messages d chatId))"
  have nf: "faults (SelectMessages chatId) = None"
    using assms
    by (cases "faults (SelectMessages chatId)")
       (simp_all add: get_chat_messages_def db_client_def error_answer)
  then have "get_chat_messages (db_client d faults) chatId =
                 (Response 200 (MessagesJson ?ms), [SelectMessages chatId])"
    by (simp add: get_chat_messages_def db_client_def error_answer data_answer)
  moreover have "sorted (map m_created_at ?ms)"
    by (simp only: created_at_embed sorted_sort_key)
  moreover have "mset ?ms = image_mset (embed_message d) (mset (chat_messages d chatId))"
    by simp
  moreover have "\<forall>m\<in>set ?ms. m_sender m =
                 map_option (\<lambda>u. \<lparr>sender_username = u_username u\<rparr>)
                   (find_user d (m_sender_id m))"
    by (auto simp: embed_message_def)
  moreover have "(\<forall>r\<in>set (chat_messages d chatId). find_user d (mr_sender_id r) \<noteq> None) \<longrightarrow>
               (\<forall>m\<in>set ?ms. \<exists>u\<in>set (db_users d).
                  u_id u = m_sender_id m \<and> m_sender m = Some \<lparr>sender_username = u_username u\<rparr>)"
  proof (intro impI ballI)
    fix m
    assume ri: "\<forall>r\<in>set (chat_messages d chatId). find_user d (mr_sender_id r) \<noteq> None"
      and m: "m \<in> set ?ms"
    obtain r where r: "r \<in> set (chat_messages d chatId)" and mr: "m = embed_message d r"
      using m by auto
    obtain u where u: "find_user d (mr_sender_id r) = Some u" using ri r by auto
    have "u \<in> set (db_users d)" and "u_id u = mr_sender_id r"
      using find_user_Some[OF u] by simp_all
    then show "\<exists>u\<in>set (db_users d).
                  u_id u = m_sender_id m \<and> m_sender m = Some \<lparr>sender_username = u_username u\<rparr>"
      using mr u by (auto simp: embed_message_def)
  qed
  ultimately show ?thesis by blast
qed

text \<open>The two messages of chat \<open>c1\<close>, stored newest first, are returned oldest first; their
  senders \<open>u1\<close> and \<open>u2\<close> have rows in \<^verbatim>\<open>users\<close>.\<close>

theorem C9_messages_ascending_witness:
  "status (fst (get_chat_messages (db_client ex_db no_faults) ''c1'')) = 200 \<and>
   \<not> (\<exists>r\<in>set (chat_messages ex_db ''c1''). find_user ex_db (mr_sender_id r) = None) \<and>
   (\<exists>ms. get_chat_messages (db_client ex_db no_faults) ''c1'' =
            (Response 200 (MessagesJson ms), [SelectMessages ''c1'']) \<and>
          sorted (map m_created_at ms) \<and>
          mset ms = image_mset (embed_message ex_db) (mset (chat_messages ex_db ''c1'')) \<and>
          (\<forall>m\<in>set ms. m_sender m =
             map_option (\<lambda>u. \<lparr>sender_username = u_username u\<rparr>)
               (find_user ex_db (m_sender_id m))) \<and>
          (\<forall>m\<in>set ms. \<exists>u\<in>set (db_users ex_db).
             u_id u = m_sender_id m \<and> m_sender m = Some \<lparr>sender_username = u_username u\<rparr>)) \<and>
   get_chat_messages (db_client ex_db no_faults) ''c1'' =
     (Response 200 (MessagesJson
        [\<lparr>m_id = ''m1'', m_body = ''hi'', m_created_at = 1, m_sender_id = ''u1'',
          m_sender = Some \<lparr>sender_username = ''alice''\<rparr>\<rparr>,
         \<lparr>m_id = ''m2'', m_body = ''yo'', m_created_at = 2, m_sender_id = ''u2'',
          m_sender = Some \<lparr>sender_username = ''bob''\<rparr>\<rparr>]),
      [SelectMessages ''c1''])"
proof -
  have h: "status (fst (get_chat_messages (db_client ex_db no_faults) ''c1'')) = 200"
    by code_simp
  have ri: "\<not> (\<exists>r\<in>set (chat_messages ex_db ''c1''). find_user ex_db (mr_sender_id r) = None)"
    by code_simp
  then have ri': "\<forall>r\<in>set (chat_messages ex_db ''c1''). find_user ex_db (mr_sender_id r) \<noteq> None"
    by auto
  have run: "get_chat_messages (db_client ex_db no_faults) ''c1'' =
     (Response 200 (MessagesJson
        [\<lparr>m_id = ''m1'', m_body = ''hi'', m_created_at = 1, m_sender_id = ''u1'',
          m_sender = Some \<lparr>sender_username = ''alice''\<rparr>\<rparr>,
         \<lparr>m_id = ''m2'', m_body = ''yo'', m_created_at = 2, m_sender_id = ''u2'',
          m_sender = Some \<lparr>sender_username = ''bob''\<rparr>\<rparr>]),
      [SelectMessages ''c1''])"
    by code_simp
  have c: "\<exists>ms. get_chat_messages (db_client ex_db no_faults) ''c1'' =
            (Response 200 (MessagesJson ms), [SelectMessages ''c1'']) \<and>
          sorted (map m_created_at ms) \<and>
          mset ms = image_mset (embed_message ex_db) (mset (chat_messages ex_db ''c1'')) \<and>
          (\<forall>m\<in>set ms. m_sender m =
             map_option (\<lambda>u. \<lparr>sender_username = u_username u\<rparr>)
               (find_user ex_db (m_sender_id m))) \<and>
          (\<forall>m\<in>set ms. \<exists>u\<in>set (db_users ex_db).
             u_id u = m_sender_id m \<and> m_sender m = Some \<lparr>sender_username = u_username u\<rparr>)"
    using C9_messages_ascending[OF h] ri' by blast
  show ?thesis using h ri c run by blast
qed

subsection \<open>C10: the unread error of the last-message query\<close>





end
